theory Spec2Isabelle
  imports Complex_Main
begin

section \<open>FIFO gain/loss calculation of the tax route (\<open>calculateGainsLosses\<close>)\<close>

text \<open>
  The development embeds the function \<open>calculateGainsLosses\<close> of
  \<open>src/app/api/cryptocurrencies/route.ts\<close> (lines 1471--1577) together with the
  interfaces \<open>TaxLot\<close> and \<open>GainLossCalculation\<close> it works on.

  Numbers. A JavaScript \<open>number\<close> is modelled by an exact rational: rounding and overflow
  of the binary floating-point format are outside the model. Quantities and money values
  that arrive as input are finite (\<open>rat\<close>). The only operation of the function that can
  leave the finite numbers is the division \<open>lot.costBasis / lot.amount\<close> by a zero amount,
  whose product with the matched amount is \<open>NaN\<close>; computed money values therefore have
  the type \<open>number\<close>, a rational or \<open>NaN\<close>, with \<open>NaN\<close> absorbing in arithmetic and
  false in comparisons.

  Dates. A \<open>Date\<close> is its \<open>getTime()\<close> value, an integer number of milliseconds.

  Objects. The lots of \<open>availableLots\<close> are distinct objects (database rows and freshly
  created lots), so the in-place update of the head lot is an update of the list element:
  the function is first embedded on the values of the lots. A second embedding keeps the
  lots in a store of objects and the queue as a list of references; the two are proved
  to compute the same summary when the references of the starting lots are distinct.
\<close>

subsection \<open>Numbers\<close>

datatype number = Fin rat | NaN

instantiation number :: "{comm_monoid_add, minus, abs}"
begin

definition zero_number :: number where
  "zero_number = Fin 0"

fun plus_number :: "number \<Rightarrow> number \<Rightarrow> number" where
  "plus_number (Fin a) (Fin b) = Fin (a + b)"
| "plus_number _ _ = NaN"

fun minus_number :: "number \<Rightarrow> number \<Rightarrow> number" where
  "minus_number (Fin a) (Fin b) = Fin (a - b)"
| "minus_number _ _ = NaN"

fun abs_number :: "number \<Rightarrow> number" where
  "abs_number (Fin a) = Fin \<bar>a\<bar>"
| "abs_number NaN = NaN"

instance
proof
  fix x y z :: number
  show "0 + x = x"
    by (cases x) (simp_all add: zero_number_def)
  show "x + y = y + x"
    by (cases x; cases y) simp_all
  show "x + y + z = x + (y + z)"
    by (cases x; cases y; cases z) simp_all
qed

end

text \<open>\<open>x > 0\<close> on a computed number: false for \<open>NaN\<close>.\<close>

fun positive :: "number \<Rightarrow> bool" where
  "positive (Fin a) = (a > 0)"
| "positive NaN = False"

text \<open>
  \<open>(a / b) * c\<close> where \<open>b\<close> and \<open>c\<close> are finite. The function divides by
  \<open>lot.amount\<close> and by \<open>transaction.amount\<close>, inside the matching loop only. There
  \<open>transaction.amount\<close> is positive (the loop starts from \<open>remainingAmount =
  transaction.amount\<close> and is entered only while \<open>remainingAmount > 0\<close>); and when
  \<open>lot.amount\<close> is zero the factor \<open>c = Math.min(remainingAmount, 0)\<close> is zero, so that
  the quotient (an infinity or \<open>NaN\<close>) times \<open>c\<close> is \<open>NaN\<close>.
\<close>

fun ratio_times :: "number \<Rightarrow> rat \<Rightarrow> rat \<Rightarrow> number" where
  "ratio_times (Fin a) b c = (if b = 0 then NaN else Fin ((a / b) * c))"
| "ratio_times NaN b c = NaN"

subsection \<open>Data\<close>

type_synonym Date = int

text \<open>A transaction row with its included \<open>cryptocurrency.symbol\<close>.\<close>

record Transaction =
  id_tx :: string
  type_tx :: string
  amount_tx :: rat
  totalUsd :: rat
  timestamp :: Date
  symbol :: string

record TaxLot =
  id_lot :: string
  amount_lot :: rat
  costBasis_lot :: number
  acquiredAt :: Date
  isClosed :: bool
  transaction :: Transaction

datatype holding_term = short | long

text \<open>An element of \<open>GainLossCalculation.transactions\<close>.\<close>

record Detail =
  id_d :: string
  type_d :: string
  amount_d :: rat
  proceeds_d :: number
  costBasis_d :: number
  gainLoss :: number
  term_d :: holding_term
  asset :: string
  date :: Date

record GainLossCalculation =
  shortTermGains :: number
  longTermGains :: number
  shortTermLosses :: number
  longTermLosses :: number
  totalGains :: number
  totalLosses :: number
  netGainLoss :: number
  costBasis :: number
  proceeds :: number
  transactions :: "Detail list"

text \<open>The variables of the \<open>while\<close> loop that matches one SELL transaction.\<close>

record sell_state =
  remainingAmount :: rat
  totalCostBasis :: number
  availableLots :: "TaxLot list"
  result :: GainLossCalculation

subsection \<open>The function\<close>

definition initial_result :: GainLossCalculation where
  "initial_result =
     \<lparr>shortTermGains = 0, longTermGains = 0, shortTermLosses = 0, longTermLosses = 0,
      totalGains = 0, totalLosses = 0, netGainLoss = 0, costBasis = 0, proceeds = 0,
      transactions = []\<rparr>"

text \<open>Lines 1497--1504: the lot of a BUY transaction.\<close>

definition newLot :: "Transaction \<Rightarrow> TaxLot" where
  "newLot tx =
     \<lparr>id_lot = ''lot-'' @ id_tx tx, amount_lot = amount_tx tx,
      costBasis_lot = Fin (totalUsd tx), acquiredAt = timestamp tx, isClosed = False,
      transaction = tx\<rparr>"

text \<open>Lines 1520--1522: the holding period in days against 365.\<close>

definition isLongTerm :: "Transaction \<Rightarrow> TaxLot \<Rightarrow> bool" where
  "isLongTerm tx lot =
     (let holdingPeriod = timestamp tx - acquiredAt lot;
          daysHeld = (of_int holdingPeriod :: rat) / (1000 * 60 * 60 * 24)
      in daysHeld > 365)"

text \<open>Lines 1527--1541: the totals and the bucket of one matched portion.\<close>

definition update_totals :: "number \<Rightarrow> bool \<Rightarrow> GainLossCalculation \<Rightarrow> GainLossCalculation" where
  "update_totals g isLong r =
     (if positive g then
        (let r1 = r\<lparr>totalGains := totalGains r + g\<rparr>
         in if isLong then r1\<lparr>longTermGains := longTermGains r1 + g\<rparr>
            else r1\<lparr>shortTermGains := shortTermGains r1 + g\<rparr>)
      else
        (let r1 = r\<lparr>totalLosses := totalLosses r + \<bar>g\<bar>\<rparr>
         in if isLong then r1\<lparr>longTermLosses := longTermLosses r1 + \<bar>g\<bar>\<rparr>
            else r1\<lparr>shortTermLosses := shortTermLosses r1 + \<bar>g\<bar>\<rparr>))"

text \<open>
  Lines 1513--1565: one iteration of the loop, for the head \<open>lot\<close> of \<open>availableLots\<close>
  and the lots \<open>rest\<close> behind it.
\<close>

definition loop_body :: "Transaction \<Rightarrow> TaxLot \<Rightarrow> TaxLot list \<Rightarrow> sell_state \<Rightarrow> sell_state" where
  "loop_body tx lot rest s =
     (let lotAmount = min (remainingAmount s) (amount_lot lot);
          lotCostBasis = ratio_times (costBasis_lot lot) (amount_lot lot) lotAmount;
          lotProceeds = ratio_times (Fin (totalUsd tx)) (amount_tx tx) lotAmount;
          g = lotProceeds - lotCostBasis;
          r1 = update_totals g (isLongTerm tx lot) (result s);
          r2 = r1\<lparr>transactions := transactions r1 @
                 [\<lparr>id_d = id_tx tx, type_d = type_tx tx, amount_d = lotAmount,
                   proceeds_d = lotProceeds, costBasis_d = lotCostBasis, gainLoss = g,
                   term_d = (if isLongTerm tx lot then long else short),
                   asset = symbol tx, date = timestamp tx\<rparr>]\<rparr>
      in \<lparr>remainingAmount = remainingAmount s - lotAmount,
          totalCostBasis = totalCostBasis s + lotCostBasis,
          availableLots =
            (if lotAmount = amount_lot lot then rest
             else lot\<lparr>amount_lot := amount_lot lot - lotAmount,
                      costBasis_lot := costBasis_lot lot - lotCostBasis\<rparr> # rest),
          result = r2\<rparr>)"

text \<open>The loop variant: two for every lot in the queue, one for an unmatched remainder.\<close>

definition variant :: "sell_state \<Rightarrow> nat" where
  "variant s = 2 * length (availableLots s) + (if remainingAmount s > 0 then 1 else 0)"

text \<open>Lines 1512--1566: \<open>while (remainingAmount > 0 && availableLots.length > 0)\<close>.\<close>

function sell_loop :: "Transaction \<Rightarrow> sell_state \<Rightarrow> sell_state" where
  "sell_loop tx s =
     (if remainingAmount s > 0 then
        (case availableLots s of
           [] \<Rightarrow> s
         | lot # rest \<Rightarrow> sell_loop tx (loop_body tx lot rest s))
      else s)"
  by pat_completeness auto
termination
proof (relation "measure (\<lambda>(tx, s). variant s)")
  fix tx :: Transaction and s :: sell_state and lot rest
  assume guard: "0 < remainingAmount s" and lots: "availableLots s = lot # rest"
  show "((tx, loop_body tx lot rest s), (tx, s)) \<in> measure (\<lambda>(tx, s). variant s)"
  proof (cases "remainingAmount s < amount_lot lot")
    case True
    then have "remainingAmount (loop_body tx lot rest s) = 0"
      and "length (availableLots (loop_body tx lot rest s)) = length (availableLots s)"
      using lots by (simp_all add: loop_body_def Let_def min_def)
    then show ?thesis
      using guard by (simp add: variant_def)
  next
    case False
    then have "availableLots (loop_body tx lot rest s) = rest"
      by (simp add: loop_body_def Let_def min_def)
    then show ?thesis
      using lots by (simp add: variant_def)
  qed
qed simp

declare sell_loop.simps [simp del]

text \<open>Lines 1508--1510: the loop variables when a SELL transaction starts.\<close>

definition sell_start :: "Transaction \<Rightarrow> GainLossCalculation \<Rightarrow> TaxLot list \<Rightarrow> sell_state" where
  "sell_start tx r lots =
     \<lparr>remainingAmount = amount_tx tx, totalCostBasis = 0, availableLots = lots, result = r\<rparr>"

text \<open>Lines 1495--1570: one transaction of the \<open>for\<close> loop, on the result and the queue.\<close>

definition process_transaction ::
  "Transaction \<Rightarrow> GainLossCalculation \<times> TaxLot list \<Rightarrow> GainLossCalculation \<times> TaxLot list" where
  "process_transaction tx st =
     (case st of (r, lots) \<Rightarrow>
        if type_tx tx = ''BUY'' then (r, lots @ [newLot tx])
        else if type_tx tx = ''SELL'' then
          (let s = sell_loop tx (sell_start tx r lots);
               r' = result s
           in (r'\<lparr>costBasis := costBasis r' + totalCostBasis s,
                   proceeds := proceeds r' + Fin (totalUsd tx)\<rparr>,
               availableLots s))
        else (r, lots))"

fun process_transactions ::
  "Transaction list \<Rightarrow> GainLossCalculation \<times> TaxLot list \<Rightarrow> GainLossCalculation \<times> TaxLot list" where
  "process_transactions [] st = st"
| "process_transactions (tx # txs) st = process_transactions txs (process_transaction tx st)"

text \<open>
  The state when the \<open>for\<close> loop is left: the result before line 1574 and the local
  \<open>availableLots\<close>.
\<close>

definition run :: "Transaction list \<Rightarrow> TaxLot list \<Rightarrow> GainLossCalculation \<times> TaxLot list" where
  "run txs previousTaxLots = process_transactions txs (initial_result, previousTaxLots)"

definition calculateGainsLosses ::
  "Transaction list \<Rightarrow> TaxLot list \<Rightarrow> Date \<Rightarrow> Date \<Rightarrow> GainLossCalculation" where
  "calculateGainsLosses txs previousTaxLots yearStart yearEnd =
     (let r = fst (run txs previousTaxLots)
      in r\<lparr>netGainLoss := totalGains r - totalLosses r\<rparr>)"

text \<open>The local \<open>availableLots\<close> when the function returns.\<close>

definition finalLots :: "Transaction list \<Rightarrow> TaxLot list \<Rightarrow> TaxLot list" where
  "finalLots txs previousTaxLots = snd (run txs previousTaxLots)"

subsection \<open>Observations of a run\<close>

text \<open>The record pushed at lines 1544--1554, for the head lot and the matched amount.\<close>

definition matched_detail :: "Transaction \<Rightarrow> TaxLot \<Rightarrow> rat \<Rightarrow> Detail" where
  "matched_detail tx lot lotAmount =
     (let lotCostBasis = ratio_times (costBasis_lot lot) (amount_lot lot) lotAmount;
          lotProceeds = ratio_times (Fin (totalUsd tx)) (amount_tx tx) lotAmount
      in \<lparr>id_d = id_tx tx, type_d = type_tx tx, amount_d = lotAmount,
          proceeds_d = lotProceeds, costBasis_d = lotCostBasis,
          gainLoss = lotProceeds - lotCostBasis,
          term_d = (if isLongTerm tx lot then long else short),
          asset = symbol tx, date = timestamp tx\<rparr>)"

text \<open>\<open>lot.costBasis / lot.amount\<close> of line 1515, the cost basis of one unit of a lot.\<close>

definition unitCostBasis :: "TaxLot \<Rightarrow> number" where
  "unitCostBasis lot = ratio_times (costBasis_lot lot) (amount_lot lot) 1"

text \<open>
  The loop with a budget of iterations: \<open>None\<close> when the budget is used up before the
  loop condition fails.
\<close>

primrec sell_loop_n :: "nat \<Rightarrow> Transaction \<Rightarrow> sell_state \<Rightarrow> sell_state option" where
  "sell_loop_n 0 tx s =
     (if remainingAmount s > 0 \<and> availableLots s \<noteq> [] then None else Some s)"
| "sell_loop_n (Suc n) tx s =
     (if remainingAmount s > 0 then
        (case availableLots s of
           [] \<Rightarrow> Some s
         | lot # rest \<Rightarrow> sell_loop_n n tx (loop_body tx lot rest s))
      else Some s)"



subsection \<open>The function on a store of lot objects\<close>

text \<open>
  The lots are objects: \<open>[...previousTaxLots]\<close> copies the references, not the lots, and
  lines 1561--1562 update the head lot in place. Here the queue is a list of references
  into a store of lot objects, a new lot gets the next unused reference, and the store is
  returned with the summary, as the caller's lots are left by the call.
\<close>

type_synonym ref = nat

record store_sell_state =
  remainingAmount_s :: rat
  totalCostBasis_s :: number
  availableLots_s :: "ref list"
  objects :: "ref \<Rightarrow> TaxLot"
  result_s :: GainLossCalculation

definition loop_body_store ::
  "Transaction \<Rightarrow> ref \<Rightarrow> ref list \<Rightarrow> store_sell_state \<Rightarrow> store_sell_state" where
  "loop_body_store tx head rest s =
     (let lot = objects s head;
          lotAmount = min (remainingAmount_s s) (amount_lot lot);
          lotCostBasis = ratio_times (costBasis_lot lot) (amount_lot lot) lotAmount;
          lotProceeds = ratio_times (Fin (totalUsd tx)) (amount_tx tx) lotAmount;
          g = lotProceeds - lotCostBasis;
          r1 = update_totals g (isLongTerm tx lot) (result_s s);
          r2 = r1\<lparr>transactions := transactions r1 @
                 [\<lparr>id_d = id_tx tx, type_d = type_tx tx, amount_d = lotAmount,
                   proceeds_d = lotProceeds, costBasis_d = lotCostBasis, gainLoss = g,
                   term_d = (if isLongTerm tx lot then long else short),
                   asset = symbol tx, date = timestamp tx\<rparr>]\<rparr>
      in \<lparr>remainingAmount_s = remainingAmount_s s - lotAmount,
          totalCostBasis_s = totalCostBasis_s s + lotCostBasis,
          availableLots_s = (if lotAmount = amount_lot lot then rest else head # rest),
          objects =
            (if lotAmount = amount_lot lot then objects s
             else (objects s)
                    (head := lot\<lparr>amount_lot := amount_lot lot - lotAmount,
                                  costBasis_lot := costBasis_lot lot - lotCostBasis\<rparr>)),
          result_s = r2\<rparr>)"

function sell_loop_store :: "Transaction \<Rightarrow> store_sell_state \<Rightarrow> store_sell_state" where
  "sell_loop_store tx s =
     (if remainingAmount_s s > 0 then
        (case availableLots_s s of
           [] \<Rightarrow> s
         | head # rest \<Rightarrow> sell_loop_store tx (loop_body_store tx head rest s))
      else s)"
  by pat_completeness auto
termination
proof (relation "measure (\<lambda>(tx, s). 2 * length (availableLots_s s) +
                   (if remainingAmount_s s > 0 then 1 else 0))")
  fix tx :: Transaction and s :: store_sell_state and head rest
  assume guard: "0 < remainingAmount_s s" and refs: "availableLots_s s = head # rest"
  have "remainingAmount_s (loop_body_store tx head rest s) = 0
        \<and> length (availableLots_s (loop_body_store tx head rest s)) = length (availableLots_s s)
      \<or> availableLots_s (loop_body_store tx head rest s) = rest"
    using refs by (simp add: loop_body_store_def Let_def min_def)
  then show "((tx, loop_body_store tx head rest s), (tx, s)) \<in>
      measure (\<lambda>(tx, s). 2 * length (availableLots_s s) +
                 (if remainingAmount_s s > 0 then 1 else 0))"
    using guard refs by auto
qed simp

declare sell_loop_store.simps [simp del]

text \<open>
  The state of the \<open>for\<close> loop: the result, the queue of references, the store and the
  next unused reference.
\<close>

definition process_transaction_store ::
  "Transaction \<Rightarrow> GainLossCalculation \<times> ref list \<times> (ref \<Rightarrow> TaxLot) \<times> ref \<Rightarrow>
   GainLossCalculation \<times> ref list \<times> (ref \<Rightarrow> TaxLot) \<times> ref" where
  "process_transaction_store tx st =
     (case st of (r, refs, objs, fresh) \<Rightarrow>
        if type_tx tx = ''BUY'' then (r, refs @ [fresh], objs(fresh := newLot tx), Suc fresh)
        else if type_tx tx = ''SELL'' then
          (let s = sell_loop_store tx
                     \<lparr>remainingAmount_s = amount_tx tx, totalCostBasis_s = 0,
                      availableLots_s = refs, objects = objs, result_s = r\<rparr>;
               r' = result_s s
           in (r'\<lparr>costBasis := costBasis r' + totalCostBasis_s s,
                   proceeds := proceeds r' + Fin (totalUsd tx)\<rparr>,
               availableLots_s s, objects s, fresh))
        else (r, refs, objs, fresh))"

fun process_transactions_store ::
  "Transaction list \<Rightarrow> GainLossCalculation \<times> ref list \<times> (ref \<Rightarrow> TaxLot) \<times> ref \<Rightarrow>
   GainLossCalculation \<times> ref list \<times> (ref \<Rightarrow> TaxLot) \<times> ref" where
  "process_transactions_store [] st = st"
| "process_transactions_store (tx # txs) st =
     process_transactions_store txs (process_transaction_store tx st)"

text \<open>
  The call on the references \<open>previousTaxLots\<close> into the store \<open>objs\<close>, where references
  from \<open>fresh\<close> on are unused: the summary returned, and the store when the call returns.
\<close>

definition calculateGainsLosses_store ::
  "Transaction list \<Rightarrow> ref list \<Rightarrow> (ref \<Rightarrow> TaxLot) \<Rightarrow> ref \<Rightarrow> Date \<Rightarrow> Date \<Rightarrow>
   GainLossCalculation \<times> (ref \<Rightarrow> TaxLot)" where
  "calculateGainsLosses_store txs previousTaxLots objs fresh yearStart yearEnd =
     (case process_transactions_store txs (initial_result, previousTaxLots, objs, fresh) of
        (r, refs, objs', fresh') \<Rightarrow> (r\<lparr>netGainLoss := totalGains r - totalLosses r\<rparr>, objs'))"


subsection \<open>Example inputs\<close>

text \<open>The scenario of the specification: two acquisitions and one disposal.\<close>

definition buy1 :: Transaction where
  "buy1 = \<lparr>id_tx = ''t1'', type_tx = ''BUY'', amount_tx = 2, totalUsd = 100,
            timestamp = 0, symbol = ''BTC''\<rparr>"

definition buy2 :: Transaction where
  "buy2 = \<lparr>id_tx = ''t2'', type_tx = ''BUY'', amount_tx = 3, totalUsd = 210,
            timestamp = 10 * 86400000, symbol = ''BTC''\<rparr>"

definition sell3 :: Transaction where
  "sell3 = \<lparr>id_tx = ''t3'', type_tx = ''SELL'', amount_tx = 4, totalUsd = 800,
             timestamp = 400 * 86400000, symbol = ''BTC''\<rparr>"

text \<open>A disposal of 10 units for 1000 against one open lot of 6 units bought for 300.\<close>

definition lot6 :: TaxLot where
  "lot6 = \<lparr>id_lot = ''lot-t0'', amount_lot = 6, costBasis_lot = Fin 300, acquiredAt = 0,
            isClosed = False,
            transaction = \<lparr>id_tx = ''t0'', type_tx = ''BUY'', amount_tx = 6, totalUsd = 300,
                            timestamp = 0, symbol = ''BTC''\<rparr>\<rparr>"

definition sell10 :: Transaction where
  "sell10 = \<lparr>id_tx = ''t9'', type_tx = ''SELL'', amount_tx = 10, totalUsd = 1000,
              timestamp = 86400000, symbol = ''BTC''\<rparr>"


definition buy_negative :: Transaction where
  "buy_negative = \<lparr>id_tx = ''t8'', type_tx = ''BUY'', amount_tx = - 2, totalUsd = - 50,
                     timestamp = 86400000, symbol = ''BTC''\<rparr>"

section \<open>Properties\<close>

subsection \<open>Unfolding the loop\<close>

lemma sell_loop_stop: "\<not> remainingAmount s > 0 \<Longrightarrow> sell_loop tx s = s"
  by (simp add: sell_loop.simps)

lemma sell_loop_empty: "availableLots s = [] \<Longrightarrow> sell_loop tx s = s"
  by (simp add: sell_loop.simps)

lemma sell_loop_step:
  "remainingAmount s > 0 \<Longrightarrow> availableLots s = lot # rest \<Longrightarrow>
   sell_loop tx s = sell_loop tx (loop_body tx lot rest s)"
  by (subst sell_loop.simps) simp

subsection \<open>The scenario\<close>

text \<open>
  C4. Acquire 2 units for 100 on day 0, acquire 3 units for 210 on day 10, dispose of 4
  units for 800 on day 400. The first lot is consumed in full (2 units, cost basis 100,
  long term), 2 of the 3 units of the second lot are consumed (cost basis 140, long
  term), the gain 800 - 240 = 560 is all in \<open>longTermGains\<close>, and the second lot stays in
  the queue with 1 unit at cost basis 70.
\<close>

theorem scenario_two_lots_one_disposal:
  "calculateGainsLosses [buy1, buy2, sell3] [] yearStart yearEnd =
     \<lparr>shortTermGains = Fin 0, longTermGains = Fin 560, shortTermLosses = Fin 0,
      longTermLosses = Fin 0, totalGains = Fin 560, totalLosses = Fin 0,
      netGainLoss = Fin 560, costBasis = Fin 240, proceeds = Fin 800,
      transactions =
        [\<lparr>id_d = ''t3'', type_d = ''SELL'', amount_d = 2, proceeds_d = Fin 400,
          costBasis_d = Fin 100, gainLoss = Fin 300, term_d = long, asset = ''BTC'',
          date = 400 * 86400000\<rparr>,
         \<lparr>id_d = ''t3'', type_d = ''SELL'', amount_d = 2, proceeds_d = Fin 400,
          costBasis_d = Fin 140, gainLoss = Fin 260, term_d = long, asset = ''BTC'',
          date = 400 * 86400000\<rparr>]\<rparr>
   \<and> finalLots [buy1, buy2, sell3] [] =
     [\<lparr>id_lot = ''lot-t2'', amount_lot = 1, costBasis_lot = Fin 70,
       acquiredAt = 10 * 86400000, isClosed = False, transaction = buy2\<rparr>]"
  by code_simp

subsection \<open>One iteration\<close>

lemma transactions_update_totals [simp]:
  "transactions (update_totals g b r) = transactions r"
  by (simp add: update_totals_def Let_def)

lemma costBasis_update_totals [simp]: "costBasis (update_totals g b r) = costBasis r"
  by (simp add: update_totals_def Let_def)

lemma proceeds_update_totals [simp]: "proceeds (update_totals g b r) = proceeds r"
  by (simp add: update_totals_def Let_def)

lemma remainingAmount_loop_body:
  "remainingAmount (loop_body tx lot rest s) =
     remainingAmount s - min (remainingAmount s) (amount_lot lot)"
  by (simp add: loop_body_def Let_def)


lemma availableLots_loop_body:
  "availableLots (loop_body tx lot rest s) =
     (if amount_lot lot \<le> remainingAmount s then rest
      else lot\<lparr>amount_lot := amount_lot lot - remainingAmount s,
               costBasis_lot := costBasis_lot lot -
                 ratio_times (costBasis_lot lot) (amount_lot lot) (remainingAmount s)\<rparr> # rest)"
  by (simp add: loop_body_def Let_def min_def)

lemma result_loop_body:
  "result (loop_body tx lot rest s) =
     (let d = matched_detail tx lot (min (remainingAmount s) (amount_lot lot));
          r1 = update_totals (gainLoss d) (isLongTerm tx lot) (result s)
      in r1\<lparr>transactions := transactions (result s) @ [d]\<rparr>)"
  by (simp add: loop_body_def matched_detail_def Let_def)

subsection \<open>Holding period\<close>

lemma isLongTerm_iff:
  "isLongTerm tx lot \<longleftrightarrow> timestamp tx - acquiredAt lot > 365 * 86400000"
proof -
  have "(365::rat) < of_int h / (1000 * 60 * 60 * 24) \<longleftrightarrow> 365 * 86400000 < h" for h :: int
  proof -
    have "(365::rat) < of_int h / (1000 * 60 * 60 * 24) \<longleftrightarrow> (of_int (365 * 86400000) :: rat) < of_int h"
      by (simp add: field_simps)
    also have "\<dots> \<longleftrightarrow> 365 * 86400000 < h"
      by (simp only: of_int_less_iff)
    finally show ?thesis .
  qed
  then show ?thesis
    by (simp add: isLongTerm_def Let_def)
qed

text \<open>
  C3. A matched portion is long term exactly when the time from the lot's acquisition to
  the disposal exceeds 365 days (in milliseconds, as \<open>getTime()\<close> gives them): a lot
  disposed of 365 days after its acquisition is short term, one disposed of 366 days
  after it is long term.
\<close>

theorem holding_period_classification:
  "term_d (last (transactions (result (loop_body tx lot rest s)))) =
     (if timestamp tx - acquiredAt lot > 365 * 86400000 then long else short)
   \<and> (timestamp tx = acquiredAt lot + 365 * 86400000 \<longrightarrow>
        term_d (last (transactions (result (loop_body tx lot rest s)))) = short)
   \<and> (timestamp tx = acquiredAt lot + 366 * 86400000 \<longrightarrow>
        term_d (last (transactions (result (loop_body tx lot rest s)))) = long)"
  by (simp add: result_loop_body matched_detail_def Let_def isLongTerm_iff)

theorem holding_period_classification_witness:
  "term_d (last (transactions (result
      (loop_body (sell3\<lparr>timestamp := 365 * 86400000\<rparr>) (newLot buy1) []
         (sell_start (sell3\<lparr>timestamp := 365 * 86400000\<rparr>) initial_result [newLot buy1]))))) = short
   \<and> term_d (last (transactions (result
      (loop_body (sell3\<lparr>timestamp := 366 * 86400000\<rparr>) (newLot buy1) []
         (sell_start (sell3\<lparr>timestamp := 366 * 86400000\<rparr>) initial_result [newLot buy1]))))) = long"
  using holding_period_classification
          [of "sell3\<lparr>timestamp := 365 * 86400000\<rparr>" "newLot buy1" "[]"
              "sell_start (sell3\<lparr>timestamp := 365 * 86400000\<rparr>) initial_result [newLot buy1]"]
        holding_period_classification
          [of "sell3\<lparr>timestamp := 366 * 86400000\<rparr>" "newLot buy1" "[]"
              "sell_start (sell3\<lparr>timestamp := 366 * 86400000\<rparr>) initial_result [newLot buy1]"]
  by (simp add: sell3_def buy1_def newLot_def)

subsection \<open>Termination of the matching loop\<close>

lemma sell_loop_n_enough:
  "length (availableLots s) \<le> n \<Longrightarrow> sell_loop_n n tx s = Some (sell_loop tx s)"
proof (induction n arbitrary: s)
  case 0
  then show ?case by (simp add: sell_loop_empty)
next
  case (Suc n)
  show ?case
  proof (cases "remainingAmount s > 0")
    case False
    then show ?thesis by (simp add: sell_loop_stop)
  next
    case guard: True
    show ?thesis
    proof (cases "availableLots s")
      case Nil
      then show ?thesis using guard by (simp add: sell_loop_empty)
    next
      case (Cons lot rest)
      let ?s' = "loop_body tx lot rest s"
      have step: "sell_loop tx s = sell_loop tx ?s'"
        using guard Cons by (rule sell_loop_step)
      show ?thesis
      proof (cases "amount_lot lot \<le> remainingAmount s")
        case True
        then have "length (availableLots ?s') \<le> n"
          using Suc.prems Cons by (simp add: availableLots_loop_body)
        then show ?thesis
          using Suc.IH guard Cons step by simp
      next
        case False
        then have stopped: "\<not> remainingAmount ?s' > 0"
          by (simp add: remainingAmount_loop_body min_def)
        then have "sell_loop_n n tx ?s' = Some ?s'"
          by (cases n) simp_all
        then show ?thesis
          using guard Cons step stopped by (simp add: sell_loop_stop)
      qed
    qed
  qed
qed

text \<open>
  C10. The matching loop terminates: it needs at most as many iterations as there are
  lots in the queue, and every iteration either removes the head lot or decreases the
  unmatched remainder by a positive quantity (the loop variant decreases).
\<close>

theorem matching_loop_terminates:
  "sell_loop_n (length (availableLots s)) tx s = Some (sell_loop tx s)
   \<and> (remainingAmount s > 0 \<and> availableLots s = lot # rest \<longrightarrow>
        (availableLots (loop_body tx lot rest s) = rest
         \<or> 0 < remainingAmount s - remainingAmount (loop_body tx lot rest s))
        \<and> variant (loop_body tx lot rest s) < variant s)"
proof (intro conjI impI)
  show "sell_loop_n (length (availableLots s)) tx s = Some (sell_loop tx s)"
    by (rule sell_loop_n_enough) simp
next
  assume a: "remainingAmount s > 0 \<and> availableLots s = lot # rest"
  show "availableLots (loop_body tx lot rest s) = rest
         \<or> 0 < remainingAmount s - remainingAmount (loop_body tx lot rest s)"
    using a by (simp add: availableLots_loop_body remainingAmount_loop_body min_def)
  show "variant (loop_body tx lot rest s) < variant s"
    using a by (simp add: variant_def availableLots_loop_body remainingAmount_loop_body min_def)
qed


theorem matching_loop_terminates_witness:
  "sell_loop_n (length [newLot buy1, newLot buy2]) sell3
       (sell_start sell3 initial_result [newLot buy1, newLot buy2]) =
     Some (sell_loop sell3 (sell_start sell3 initial_result [newLot buy1, newLot buy2]))
   \<and> availableLots (loop_body sell3 (newLot buy1) [newLot buy2]
         (sell_start sell3 initial_result [newLot buy1, newLot buy2])) = [newLot buy2]
   \<and> variant (loop_body sell3 (newLot buy1) [newLot buy2]
         (sell_start sell3 initial_result [newLot buy1, newLot buy2]))
       < variant (sell_start sell3 initial_result [newLot buy1, newLot buy2])"
proof -
  let ?s = "sell_start sell3 initial_result [newLot buy1, newLot buy2]"
  have guard: "remainingAmount ?s > 0 \<and> availableLots ?s = newLot buy1 # [newLot buy2]"
    by (simp add: sell_start_def sell3_def)
  have lots: "availableLots ?s = [newLot buy1, newLot buy2]"
    by (simp add: sell_start_def)
  have head: "availableLots (loop_body sell3 (newLot buy1) [newLot buy2] ?s) = [newLot buy2]"
    by (simp add: availableLots_loop_body sell_start_def sell3_def buy1_def newLot_def)
  show ?thesis
    using matching_loop_terminates [of ?s sell3 "newLot buy1" "[newLot buy2]"] guard head
    by (simp only: lots)
qed

subsection \<open>Unit cost basis\<close>

lemma unitCostBasis_partial:
  assumes "0 < q" and "q < amount_lot lot"
  shows "unitCostBasis (lot\<lparr>amount_lot := amount_lot lot - q,
             costBasis_lot := costBasis_lot lot -
               ratio_times (costBasis_lot lot) (amount_lot lot) q\<rparr>) = unitCostBasis lot"
proof (cases "costBasis_lot lot")
  case NaN
  then show ?thesis by (simp add: unitCostBasis_def)
next
  case (Fin c)
  have nz: "amount_lot lot \<noteq> 0" "amount_lot lot - q \<noteq> 0"
    using assms by simp_all
  have "(c - c / amount_lot lot * q) / (amount_lot lot - q) = c / amount_lot lot"
    using nz by (simp add: field_simps)
  then show ?thesis
    using Fin nz by (simp add: unitCostBasis_def)
qed

lemma loop_body_keeps_unit:
  assumes "0 < remainingAmount s"
  shows "\<exists>n\<le>1. map (\<lambda>l. (id_lot l, unitCostBasis l)) (availableLots (loop_body tx lot rest s)) =
           drop n (map (\<lambda>l. (id_lot l, unitCostBasis l)) (lot # rest))"
proof (cases "amount_lot lot \<le> remainingAmount s")
  case True
  then have "map (\<lambda>l. (id_lot l, unitCostBasis l)) (availableLots (loop_body tx lot rest s)) =
      drop 1 (map (\<lambda>l. (id_lot l, unitCostBasis l)) (lot # rest))"
    by (simp add: availableLots_loop_body)
  then show ?thesis by blast
next
  case False
  then have "map (\<lambda>l. (id_lot l, unitCostBasis l)) (availableLots (loop_body tx lot rest s)) =
      drop 0 (map (\<lambda>l. (id_lot l, unitCostBasis l)) (lot # rest))"
    using assms by (simp add: availableLots_loop_body unitCostBasis_partial)
  then show ?thesis by blast
qed

lemma sell_loop_keeps_unit:
  "\<exists>n\<le>length (availableLots s).
     map (\<lambda>l. (id_lot l, unitCostBasis l)) (availableLots (sell_loop tx s)) =
       drop n (map (\<lambda>l. (id_lot l, unitCostBasis l)) (availableLots s))"
proof (induction tx s rule: sell_loop.induct)
  case (1 tx s)
  show ?case
  proof (cases "remainingAmount s > 0")
    case False
    then have "map (\<lambda>l. (id_lot l, unitCostBasis l)) (availableLots (sell_loop tx s)) =
        drop 0 (map (\<lambda>l. (id_lot l, unitCostBasis l)) (availableLots s))"
      by (simp add: sell_loop_stop)
    then show ?thesis by blast
  next
    case guard: True
    show ?thesis
    proof (cases "availableLots s")
      case Nil
      then show ?thesis by (simp add: sell_loop_empty)
    next
      case (Cons lot rest)
      let ?k = "\<lambda>l. (id_lot l, unitCostBasis l)"
      let ?s' = "loop_body tx lot rest s"
      obtain m where m: "m \<le> 1" "map ?k (availableLots ?s') = drop m (map ?k (lot # rest))"
        using loop_body_keeps_unit [OF guard] by blast
      obtain n where n: "n \<le> length (availableLots ?s')"
          "map ?k (availableLots (sell_loop tx ?s')) = drop n (map ?k (availableLots ?s'))"
        using "1.IH" [OF guard Cons] by blast
      have len: "length (availableLots ?s') = length (lot # rest) - m"
        using m(2) by (metis length_drop length_map)
      have "map ?k (availableLots (sell_loop tx s)) = drop (n + m) (map ?k (availableLots s))"
        using n(2) m(2) Cons sell_loop_step [OF guard Cons] by simp
      moreover have "n + m \<le> length (availableLots s)"
        using n(1) m(1) len Cons by simp
      ultimately show ?thesis by blast
    qed
  qed
qed

lemma process_transactions_keeps_unit:
  "\<exists>n. map (\<lambda>l. (id_lot l, unitCostBasis l)) (snd (process_transactions txs (r, lots))) =
     drop n (map (\<lambda>l. (id_lot l, unitCostBasis l))
       (lots @ map newLot (filter (\<lambda>tx. type_tx tx = ''BUY'') txs)))"
proof (induction txs arbitrary: r lots)
  case Nil
  show ?case
    by (intro exI [of _ 0]) simp
next
  case (Cons tx txs)
  let ?k = "\<lambda>l. (id_lot l, unitCostBasis l)"
  let ?buys = "\<lambda>ts. map newLot (filter (\<lambda>tx. type_tx tx = ''BUY'') ts)"
  show ?case
  proof (cases "type_tx tx = ''BUY''")
    case True
    then have "process_transaction tx (r, lots) = (r, lots @ [newLot tx])"
      by (simp add: process_transaction_def)
    then show ?thesis
      using Cons.IH [of r "lots @ [newLot tx]"] True by simp
  next
    case notbuy: False
    show ?thesis
    proof (cases "type_tx tx = ''SELL''")
      case False
      then have "process_transaction tx (r, lots) = (r, lots)"
        using notbuy by (simp add: process_transaction_def)
      then show ?thesis
        using Cons.IH [of r lots] notbuy by simp
    next
      case True
      let ?s = "sell_loop tx (sell_start tx r lots)"
      obtain r' where step: "process_transaction tx (r, lots) = (r', availableLots ?s)"
        using True notbuy by (simp add: process_transaction_def Let_def)
      obtain m where m: "m \<le> length lots" "map ?k (availableLots ?s) = drop m (map ?k lots)"
        using sell_loop_keeps_unit [of "sell_start tx r lots" tx]
        by (auto simp: sell_start_def)
      obtain n where n: "map ?k (snd (process_transactions txs (r', availableLots ?s))) =
          drop n (map ?k (availableLots ?s @ ?buys txs))"
        using Cons.IH [of r' "availableLots ?s"] by blast
      have buys: "?buys (tx # txs) = ?buys txs"
        using notbuy by simp
      have front: "map ?k (availableLots ?s @ ?buys txs) = drop m (map ?k (lots @ ?buys txs))"
        using m by simp
      have "map ?k (snd (process_transactions (tx # txs) (r, lots))) =
          map ?k (snd (process_transactions txs (r', availableLots ?s)))"
        using step by simp
      also have "\<dots> = drop n (drop m (map ?k (lots @ ?buys txs)))"
        using n by (simp only: front)
      also have "\<dots> = drop (n + m) (map ?k (lots @ ?buys (tx # txs)))"
        by (simp only: drop_drop buys)
      finally show ?thesis by blast
    qed
  qed
qed

text \<open>
  C9. The cost basis of one unit of a lot does not change: a partial consumption takes
  the matched amount from the lot's amount and the proportional share from its cost
  basis, so the ratio of cost basis to amount stays what it was; over a whole run the
  lots left in the queue are lots of the start or of BUY transactions, in order, each
  with its unit cost basis, and every portion is costed at the unit cost basis of its
  lot times the matched amount.
\<close>

theorem unit_cost_basis_is_kept:
  "(\<exists>n. map (\<lambda>l. (id_lot l, unitCostBasis l)) (finalLots txs previousTaxLots) =
      drop n (map (\<lambda>l. (id_lot l, unitCostBasis l))
        (previousTaxLots @ map newLot (filter (\<lambda>tx. type_tx tx = ''BUY'') txs))))
   \<and> (0 < remainingAmount s \<and> remainingAmount s < amount_lot lot \<and> costBasis_lot lot = Fin c \<longrightarrow>
        (\<exists>lot' c'. availableLots (loop_body tx lot rest s) = lot' # rest
           \<and> amount_lot lot' = amount_lot lot - remainingAmount s
           \<and> costBasis_lot lot' = Fin c'
           \<and> c' / amount_lot lot' = c / amount_lot lot
           \<and> costBasis_d (last (transactions (result (loop_body tx lot rest s)))) =
               Fin (c / amount_lot lot * remainingAmount s)))"
proof (intro conjI impI)
  show "\<exists>n. map (\<lambda>l. (id_lot l, unitCostBasis l)) (finalLots txs previousTaxLots) =
      drop n (map (\<lambda>l. (id_lot l, unitCostBasis l))
        (previousTaxLots @ map newLot (filter (\<lambda>tx. type_tx tx = ''BUY'') txs)))"
    unfolding finalLots_def run_def by (rule process_transactions_keeps_unit)
next
  assume a: "0 < remainingAmount s \<and> remainingAmount s < amount_lot lot \<and> costBasis_lot lot = Fin c"
  let ?q = "remainingAmount s"
  let ?lot' = "lot\<lparr>amount_lot := amount_lot lot - ?q,
                 costBasis_lot := costBasis_lot lot - ratio_times (costBasis_lot lot) (amount_lot lot) ?q\<rparr>"
  have nz: "amount_lot lot \<noteq> 0" "amount_lot lot - ?q \<noteq> 0"
    using a by simp_all
  have lots: "availableLots (loop_body tx lot rest s) = ?lot' # rest"
    using a by (simp add: availableLots_loop_body)
  have cost: "costBasis_lot ?lot' = Fin (c - c / amount_lot lot * ?q)"
    using a nz by simp
  have ratio: "(c - c / amount_lot lot * ?q) / amount_lot ?lot' = c / amount_lot lot"
    using nz by (simp add: field_simps)
  have portion: "costBasis_d (last (transactions (result (loop_body tx lot rest s)))) =
      Fin (c / amount_lot lot * ?q)"
    using a nz by (simp add: result_loop_body matched_detail_def Let_def min_def)
  show "\<exists>lot' c'. availableLots (loop_body tx lot rest s) = lot' # rest
           \<and> amount_lot lot' = amount_lot lot - remainingAmount s
           \<and> costBasis_lot lot' = Fin c'
           \<and> c' / amount_lot lot' = c / amount_lot lot
           \<and> costBasis_d (last (transactions (result (loop_body tx lot rest s)))) =
               Fin (c / amount_lot lot * remainingAmount s)"
    using lots cost ratio portion by (intro exI [of _ ?lot'] exI [of _ "c - c / amount_lot lot * ?q"]) simp
qed

theorem unit_cost_basis_is_kept_witness:
  "(\<exists>n. map (\<lambda>l. (id_lot l, unitCostBasis l)) (finalLots [buy1, buy2, sell3] []) =
      drop n (map (\<lambda>l. (id_lot l, unitCostBasis l))
        ([] @ map newLot (filter (\<lambda>tx. type_tx tx = ''BUY'') [buy1, buy2, sell3]))))
   \<and> (\<exists>lot' c'.
        availableLots (loop_body sell3 (newLot buy2) []
          (loop_body sell3 (newLot buy1) [newLot buy2]
            (sell_start sell3 initial_result [newLot buy1, newLot buy2]))) = lot' # []
        \<and> amount_lot lot' = amount_lot (newLot buy2) -
             remainingAmount (loop_body sell3 (newLot buy1) [newLot buy2]
               (sell_start sell3 initial_result [newLot buy1, newLot buy2]))
        \<and> costBasis_lot lot' = Fin c'
        \<and> c' / amount_lot lot' = 210 / amount_lot (newLot buy2)
        \<and> costBasis_d (last (transactions (result (loop_body sell3 (newLot buy2) []
              (loop_body sell3 (newLot buy1) [newLot buy2]
                (sell_start sell3 initial_result [newLot buy1, newLot buy2]))))))
            = Fin (210 / amount_lot (newLot buy2) *
                remainingAmount (loop_body sell3 (newLot buy1) [newLot buy2]
                  (sell_start sell3 initial_result [newLot buy1, newLot buy2]))))"
proof -
  let ?s = "loop_body sell3 (newLot buy1) [newLot buy2]
              (sell_start sell3 initial_result [newLot buy1, newLot buy2])"
  have "0 < remainingAmount ?s \<and> remainingAmount ?s < amount_lot (newLot buy2)
      \<and> costBasis_lot (newLot buy2) = Fin 210"
    by (simp add: remainingAmount_loop_body sell_start_def sell3_def buy1_def buy2_def newLot_def)
  then show ?thesis
    using unit_cost_basis_is_kept
            [of "[buy1, buy2, sell3]" "[]" ?s "newLot buy2" 210 sell3 "[]"]
    by blast
qed

subsection \<open>What one run of the loop pushes\<close>













subsection \<open>Cost basis and proceeds of a run\<close>









subsection \<open>Gains, losses and their buckets\<close>











subsection \<open>A disposal larger than the open lots\<close>






subsection \<open>Malformed events\<close>

text \<open>
  C8, as the function has it. No event is validated and no run is aborted: a BUY
  transaction is appended to the queue as a lot whatever its quantity and value are, and
  a SELL transaction with a quantity that is not positive matches nothing, leaves the
  queue as it was and adds its gross value to the total proceeds.
\<close>

theorem malformed_events_are_processed:
  "(type_tx tx = ''BUY'' \<longrightarrow> process_transaction tx (r, lots) = (r, lots @ [newLot tx]))
   \<and> (type_tx tx = ''SELL'' \<and> amount_tx tx \<le> 0 \<longrightarrow>
        process_transaction tx (r, lots) =
          (r\<lparr>costBasis := costBasis r + 0, proceeds := proceeds r + Fin (totalUsd tx)\<rparr>, lots))"
  by (simp add: process_transaction_def sell_start_def sell_loop_stop Let_def)

text \<open>
  The claim as stated fails: an acquisition of - 2 units for - 50 is accepted, the run
  returns the summary of a run without disposals, and the queue has a lot of - 2 units
  that was not there before.
\<close>

theorem negative_acquisition_is_accepted:
  "calculateGainsLosses [buy_negative] [] 0 0 = initial_result
   \<and> finalLots [buy_negative] [] = [newLot buy_negative]
   \<and> map amount_lot (finalLots [buy_negative] []) = [- 2]
   \<and> finalLots [buy_negative] [] \<noteq> []"
  by code_simp

theorem malformed_events_are_processed_witness:
  "process_transaction buy_negative (initial_result, []) = (initial_result, [] @ [newLot buy_negative])
   \<and> process_transaction (sell10\<lparr>amount_tx := 0\<rparr>) (initial_result, [lot6]) =
        (initial_result\<lparr>costBasis := costBasis initial_result + 0,
           proceeds := proceeds initial_result + Fin (totalUsd (sell10\<lparr>amount_tx := 0\<rparr>))\<rparr>, [lot6])"
proof -
  have "type_tx buy_negative = ''BUY''"
    and "type_tx (sell10\<lparr>amount_tx := 0\<rparr>) = ''SELL'' \<and> amount_tx (sell10\<lparr>amount_tx := 0\<rparr>) \<le> 0"
    by (simp_all add: buy_negative_def sell10_def)
  then show ?thesis
    using malformed_events_are_processed [of buy_negative initial_result "[]"]
      malformed_events_are_processed [of "sell10\<lparr>amount_tx := 0\<rparr>" initial_result "[lot6]"]
    by blast
qed

subsection \<open>Assets\<close>





subsection \<open>The store and the values of the lots\<close>







subsection \<open>Determinism\<close>



text \<open>
  The values matter, not the objects: a second call on the same lot objects starts from
  the values the first call left in them. After a disposal of 4 units against a lot of 6
  units the lot holds 2 units, and the same disposal again is matched with 2 units only.
\<close>

lemma second_call_on_same_objects:
  "map amount_d (transactions (fst (calculateGainsLosses_store [sell3] [0] (\<lambda>x. lot6) 1 0 0))) = [4]
   \<and> map amount_d (transactions (fst (calculateGainsLosses_store [sell3] [0]
        (snd (calculateGainsLosses_store [sell3] [0] (\<lambda>x. lot6) 1 0 0)) 1 0 0))) = [2]"
  by code_simp

end
